theory Spec2Isabelle
  imports Main
begin

section \<open>The pod creation reconciler of the TPU provisioner\<close>

text \<open>
  A shallow embedding of \<^verbatim>\<open>tpu-provisioner/internal/controller/creation_controller.go\<close>.
  \<^verbatim>\<open>Reconcile\<close> talks to three collaborators through interfaces: the cluster client
  (\<^verbatim>\<open>r.Get\<close>), the event recorder (\<^verbatim>\<open>r.Recorder\<close>) and the cloud provider
  (\<^verbatim>\<open>r.Provider\<close>). Their state is made explicit in a world record that \<^verbatim>\<open>Reconcile\<close>
  takes and returns, and every call on a collaborator is appended to a trace, oldest first.
  Log lines (\<^verbatim>\<open>lg.Info\<close>) are not part of the model.
\<close>

subsection \<open>Go errors\<close>

datatype status_reason = StatusReasonNotFound | StatusReasonOther string

text \<open>
  An error value is a sentinel, an API status error, some other leaf error with its text,
  or a wrapper made by \<^verbatim>\<open>fmt.Errorf\<close> with \<^verbatim>\<open>%w\<close>, which keeps its formatted text and
  the error it wraps.
\<close>

datatype go_error =
    ErrDuplicateRequest
  | StatusError status_reason string
  | ErrorString string
  | WrapError string go_error

text \<open>
  Modelled from the spec: the text of \<^verbatim>\<open>cloud.ErrDuplicateRequest\<close> is declared in package
  \<^verbatim>\<open>cloud\<close>, outside this file; the spec names the error kind "duplicate request".
\<close>

definition ErrDuplicateRequest_text :: string where
  "ErrDuplicateRequest_text = ''duplicate request''"

fun Error :: "go_error \<Rightarrow> string" where
  "Error ErrDuplicateRequest = ErrDuplicateRequest_text"
| "Error (StatusError r m) = m"
| "Error (ErrorString s) = s"
| "Error (WrapError m e) = m"

text \<open>\<^verbatim>\<open>errors.Is\<close>: the error or one it wraps is the target.\<close>

fun errors_Is :: "go_error \<Rightarrow> go_error \<Rightarrow> bool" where
  "errors_Is (WrapError m e) target = (WrapError m e = target \<or> errors_Is e target)"
| "errors_Is e target = (e = target)"

text \<open>\<^verbatim>\<open>fmt.Errorf(prefix + "%w", err)\<close>.\<close>

definition Errorf_w :: "string \<Rightarrow> go_error \<Rightarrow> go_error" where
  "Errorf_w prefix err = WrapError (prefix @ Error err) err"

text \<open>
  \<^verbatim>\<open>apierrors.IsNotFound\<close> (library code): the first status error on the wrap chain has
  the reason NotFound.
\<close>

fun IsNotFound :: "go_error \<Rightarrow> bool" where
  "IsNotFound (StatusError r m) = (r = StatusReasonNotFound)"
| "IsNotFound (WrapError m e) = IsNotFound e"
| "IsNotFound e = False"

subsection \<open>Pods\<close>

datatype pod_phase = PodPending | PodRunning | PodSucceeded | PodFailed | PodUnknown

record scheduling_condition =
  Placed :: bool
  Reason :: string

record container =
  Requests :: "string \<rightharpoonup> int"

record pod =
  Namespace :: string
  Name :: string
  Phase :: pod_phase
  Scheduling :: "scheduling_condition option"
  Containers :: "container list"
  NodeSelector :: "string \<rightharpoonup> string"

type_synonym namespaced_name = "string \<times> string"

definition pod_key :: "pod \<Rightarrow> namespaced_name" where
  "pod_key p = (Namespace p, Name p)"

subsection \<open>The eligibility sub-predicates\<close>

text \<open>
  Modelled from the spec: \<^verbatim>\<open>isPending\<close> is declared elsewhere in package
  \<^verbatim>\<open>controller\<close>, outside this file. Section 4.1: phase == Pending.
\<close>

definition isPending :: "pod \<Rightarrow> bool" where
  "isPending p = (Phase p = PodPending)"

text \<open>
  Modelled from the spec: \<^verbatim>\<open>isUnschedulable\<close> is declared elsewhere in package
  \<^verbatim>\<open>controller\<close>, outside this file. Section 4.1: the scheduling condition reports
  failure to place the pod, with the reason that no node satisfies its constraints.
\<close>

definition isUnschedulable :: "pod \<Rightarrow> bool" where
  "isUnschedulable p =
     (case Scheduling p of
        None \<Rightarrow> False
      | Some c \<Rightarrow> \<not> Placed c \<and> Reason c = ''Unschedulable'')"

text \<open>
  Modelled from the spec: \<^verbatim>\<open>doesRequestResource\<close> is declared elsewhere in package
  \<^verbatim>\<open>controller\<close>, outside this file. Section 4.1: at least one container's resource
  requests map contains a positive quantity for the resource type.
\<close>

definition doesRequestResource :: "pod \<Rightarrow> string \<Rightarrow> bool" where
  "doesRequestResource p resourceType =
     list_ex (\<lambda>c. case Requests c resourceType of None \<Rightarrow> False | Some q \<Rightarrow> 0 < q)
       (Containers p)"

text \<open>
  Modelled from the spec: \<^verbatim>\<open>hasNodeSelectors\<close> is declared elsewhere in package
  \<^verbatim>\<open>controller\<close>, outside this file. Section 4.1: the node selector constraints contain
  the key.
\<close>

definition hasNodeSelectors :: "pod \<Rightarrow> string \<Rightarrow> bool" where
  "hasNodeSelectors p selectorKey = (NodeSelector p selectorKey \<noteq> None)"

text \<open>
  Modelled from the spec: \<^verbatim>\<open>cloud.GKETPUNodeSelector\<close> is declared in package \<^verbatim>\<open>cloud\<close>,
  outside this file. Section 8, scenario 8, gives the fixed selector key this value.
\<close>

definition GKETPUNodeSelector :: string where
  "GKETPUNodeSelector = ''cloud.example.com/accelerator-family''"

subsection \<open>Events\<close>

datatype event_type = EventTypeNormal | EventTypeWarning

text \<open>
  Modelled from the spec: the three event reasons are constants declared elsewhere in
  package \<^verbatim>\<open>controller\<close>, outside this file. The spec tells them apart as "provisioning
  starting", "provisioning failed" and "provisioning ensured"; they are kept symbolic.
\<close>

datatype event_reason =
    EventEnsuringNodePool
  | EventFailedEnsuringNodePool
  | EventNodePoolEnsured

record event =
  Involved :: pod
  Type :: event_type
  EventReason :: event_reason
  Message :: string

subsection \<open>The world: cluster store, cloud state and the trace of calls\<close>

text \<open>The methods of \<^verbatim>\<open>client.Client\<close>, which the reconciler embeds.\<close>

datatype client_verb =
    ClientGet | ClientList | ClientCreate | ClientDelete
  | ClientUpdate | ClientPatch | ClientDeleteAllOf

datatype call =
    StoreCall client_verb namespaced_name
  | Emit event
  | EnsureCall pod

text \<open>
  The objects of the cluster by key, the state of the cloud provider, and the calls made
  so far on the client, the recorder and the provider.
\<close>

record 's world =
  store :: "namespaced_name \<rightharpoonup> pod"
  cloud :: 's
  calls :: "call list"

text \<open>
  The cancellation or deadline signal of \<^verbatim>\<open>ctx\<close>, on a logical clock that counts the calls
  made on collaborators: with \<open>Deadline = Some d\<close> the signal has fired once \<open>d\<close> calls are in
  the trace; with \<open>None\<close> it never fires.
\<close>

record Context =
  Deadline :: "nat option"

definition ctx_Done :: "Context \<Rightarrow> 's world \<Rightarrow> bool" where
  "ctx_Done ctx w = (case Deadline ctx of None \<Rightarrow> False | Some d \<Rightarrow> d \<le> length (calls w))"

subsection \<open>The reconciler\<close>

record pod_criteria =
  ResourceType :: string

text \<open>
  \<^verbatim>\<open>CreationReconciler\<close>. The two interface fields are the injected implementations:
  \<open>Client\<close> answers a \<^verbatim>\<open>Get\<close> from whether the context it is given is already done, the
  store and the key; \<open>Provider\<close> is \<^verbatim>\<open>EnsureNodePoolForPod\<close>, on the cloud state.
  The recorder only appends to the trace; \<^verbatim>\<open>Scheme\<close> is not used by \<^verbatim>\<open>Reconcile\<close>.
\<close>

record 's CreationReconciler =
  Client :: "bool \<Rightarrow> (namespaced_name \<rightharpoonup> pod) \<Rightarrow> namespaced_name \<Rightarrow> go_error + pod"
  PodCriteria :: pod_criteria
  Provider :: "pod \<Rightarrow> 's \<Rightarrow> go_error option \<times> 's"

record request =
  NamespacedName :: namespaced_name

text \<open>\<^verbatim>\<open>ctrl.Result\<close>; \<^verbatim>\<open>ctrl.Result{}\<close> is its zero value.\<close>

record result =
  Requeue :: bool
  RequeueAfter :: int

definition Result_zero :: result where
  "Result_zero = \<lparr>Requeue = False, RequeueAfter = 0\<rparr>"

text \<open>
  The three calls \<^verbatim>\<open>Reconcile\<close> makes on its collaborators. Each appends itself to the
  trace; only the provider call changes anything else, the cloud state.
\<close>

definition Get :: "'s CreationReconciler \<Rightarrow> Context \<Rightarrow> namespaced_name \<Rightarrow> 's world
    \<Rightarrow> (go_error + pod) \<times> 's world" where
  "Get r ctx key w =
     (Client r (ctx_Done ctx w) (store w) key,
      w\<lparr>calls := calls w @ [StoreCall ClientGet key]\<rparr>)"

definition Recorder_Event :: "pod \<Rightarrow> event_type \<Rightarrow> event_reason \<Rightarrow> string \<Rightarrow> 's world
    \<Rightarrow> 's world" where
  "Recorder_Event p t reason msg w =
     w\<lparr>calls := calls w @
        [Emit \<lparr>Involved = p, Type = t, EventReason = reason, Message = msg\<rparr>]\<rparr>"

definition EnsureNodePoolForPod :: "'s CreationReconciler \<Rightarrow> pod \<Rightarrow> 's world
    \<Rightarrow> go_error option \<times> 's world" where
  "EnsureNodePoolForPod r p w =
     (case Provider r p (cloud w) of
        (res, c) \<Rightarrow> (res, w\<lparr>cloud := c, calls := calls w @ [EnsureCall p]\<rparr>))"

definition Reconcile :: "'s CreationReconciler \<Rightarrow> Context \<Rightarrow> request \<Rightarrow> 's world
    \<Rightarrow> (result \<times> go_error option) \<times> 's world" where
  "Reconcile r ctx req w =
     (case Get r ctx (NamespacedName req) w of
        (Inl err, w1) \<Rightarrow>
          if IsNotFound err then ((Result_zero, None), w1)
          else ((Result_zero, Some (Errorf_w ''getting pod: '' err)), w1)
      | (Inr p, w1) \<Rightarrow>
          if \<not> isPending p \<or> \<not> isUnschedulable p
             \<or> \<not> doesRequestResource p (ResourceType (PodCriteria r))
             \<or> \<not> hasNodeSelectors p GKETPUNodeSelector
          then ((Result_zero, None), w1)
          else
            let w2 = Recorder_Event p EventTypeNormal EventEnsuringNodePool
                       (''Ensuring Node Pool, triggered by Pod '' @ Namespace p @ ''/''
                          @ Name p @ ''.'') w1
            in (case EnsureNodePoolForPod r p w2 of
                  (Some err, w3) \<Rightarrow>
                    if errors_Is err ErrDuplicateRequest then ((Result_zero, None), w3)
                    else ((Result_zero, Some err),
                          Recorder_Event p EventTypeWarning EventFailedEnsuringNodePool
                            (''Failed to ensure existance of Node Pool: '' @ Error err) w3)
                | (None, w3) \<Rightarrow>
                    ((Result_zero, None),
                     Recorder_Event p EventTypeNormal EventNodePoolEnsured
                       ''Node Pool Ensured.'' w3)))"

subsection \<open>Vocabulary for the properties\<close>

text \<open>
  The conjunction whose negation guards the early return of \<^verbatim>\<open>Reconcile\<close>. The source
  writes the four calls inline; the spec calls their conjunction \<^verbatim>\<open>isEligible\<close>.
\<close>

definition isEligible :: "pod \<Rightarrow> string \<Rightarrow> bool" where
  "isEligible p resourceType =
     (isPending p \<and> isUnschedulable p \<and> doesRequestResource p resourceType
      \<and> hasNodeSelectors p GKETPUNodeSelector)"

text \<open>What \<^verbatim>\<open>r.Get\<close> answers to an invocation of \<^verbatim>\<open>Reconcile\<close> started in world \<open>w\<close>.\<close>

definition fetched :: "'s CreationReconciler \<Rightarrow> Context \<Rightarrow> request \<Rightarrow> 's world
    \<Rightarrow> go_error + pod" where
  "fetched r ctx req w = Client r (ctx_Done ctx w) (store w) (NamespacedName req)"

text \<open>The calls one invocation adds to the trace, oldest first.\<close>

definition invocation_calls :: "'s CreationReconciler \<Rightarrow> Context \<Rightarrow> request \<Rightarrow> 's world
    \<Rightarrow> call list" where
  "invocation_calls r ctx req w =
     drop (length (calls w)) (calls (snd (Reconcile r ctx req w)))"

fun emitted :: "call list \<Rightarrow> event list" where
  "emitted [] = []"
| "emitted (Emit e # cs) = e # emitted cs"
| "emitted (c # cs) = emitted cs"

definition warnings :: "call list \<Rightarrow> event list" where
  "warnings cs = filter (\<lambda>e. Type e = EventTypeWarning) (emitted cs)"

fun ensure_calls :: "call list \<Rightarrow> pod list" where
  "ensure_calls [] = []"
| "ensure_calls (EnsureCall p # cs) = p # ensure_calls cs"
| "ensure_calls (c # cs) = ensure_calls cs"

fun store_calls :: "call list \<Rightarrow> (client_verb \<times> namespaced_name) list" where
  "store_calls [] = []"
| "store_calls (StoreCall v k # cs) = (v, k) # store_calls cs"
| "store_calls (c # cs) = store_calls cs"

text \<open>The three events \<^verbatim>\<open>Reconcile\<close> records, as the calls on the recorder build them.\<close>

definition ensuring_event :: "pod \<Rightarrow> event" where
  "ensuring_event p =
     \<lparr>Involved = p, Type = EventTypeNormal, EventReason = EventEnsuringNodePool,
      Message = ''Ensuring Node Pool, triggered by Pod '' @ Namespace p @ ''/'' @ Name p
                @ ''.''\<rparr>"

definition failed_event :: "pod \<Rightarrow> go_error \<Rightarrow> event" where
  "failed_event p err =
     \<lparr>Involved = p, Type = EventTypeWarning, EventReason = EventFailedEnsuringNodePool,
      Message = ''Failed to ensure existance of Node Pool: '' @ Error err\<rparr>"

definition ensured_event :: "pod \<Rightarrow> event" where
  "ensured_event p =
     \<lparr>Involved = p, Type = EventTypeNormal, EventReason = EventNodePoolEnsured,
      Message = ''Node Pool Ensured.''\<rparr>"



subsection \<open>Concrete collaborators and inputs\<close>

text \<open>
  Scenario 8 of the spec: a pending, unschedulable pod that requests four accelerators
  and selects the accelerator family; scenario 9 is the same pod, running.
\<close>

definition example_pod :: pod where
  "example_pod =
     \<lparr>Namespace = ''default'', Name = ''trainer-0'', Phase = PodPending,
      Scheduling = Some \<lparr>Placed = False, Reason = ''Unschedulable''\<rparr>,
      Containers = [\<lparr>Requests = [''example.com/accelerator'' \<mapsto> 4]\<rparr>],
      NodeSelector = [GKETPUNodeSelector \<mapsto> ''v5'']\<rparr>"

definition running_pod :: pod where
  "running_pod = example_pod\<lparr>Phase := PodRunning\<rparr>"

definition example_request :: request where
  "example_request = \<lparr>NamespacedName = (''default'', ''trainer-0'')\<rparr>"

text \<open>
  A client that reads the store directly and honours the context: a done context makes the
  \<^verbatim>\<open>Get\<close> fail, a missing object is reported as not found.
\<close>

definition cluster_client ::
    "bool \<Rightarrow> (namespaced_name \<rightharpoonup> pod) \<Rightarrow> namespaced_name \<Rightarrow> go_error + pod" where
  "cluster_client done st key =
     (if done then Inl (ErrorString ''context canceled'')
      else case st key of
             None \<Rightarrow> Inl (StatusError StatusReasonNotFound ''pod not found'')
           | Some p \<Rightarrow> Inr p)"

text \<open>A client whose server cannot be reached.\<close>

definition unreachable_client ::
    "bool \<Rightarrow> (namespaced_name \<rightharpoonup> pod) \<Rightarrow> namespaced_name \<Rightarrow> go_error + pod" where
  "unreachable_client done st key = Inl (ErrorString ''connection refused'')"

text \<open>
  A provider that keeps a registry of the pods it created a node pool for, and refuses a
  second request for a registered pod as a duplicate.
\<close>

definition registry_provider ::
    "pod \<Rightarrow> namespaced_name list \<Rightarrow> go_error option \<times> namespaced_name list" where
  "registry_provider p registry =
     (if pod_key p \<in> set registry then (Some ErrDuplicateRequest, registry)
      else (None, pod_key p # registry))"

text \<open>A provider that always fails for lack of quota.\<close>

definition quota_provider ::
    "pod \<Rightarrow> namespaced_name list \<Rightarrow> go_error option \<times> namespaced_name list" where
  "quota_provider p registry = (Some (ErrorString ''quota exceeded''), registry)"

definition example_reconciler :: "(namespaced_name list) CreationReconciler" where
  "example_reconciler =
     \<lparr>Client = cluster_client,
      PodCriteria = \<lparr>ResourceType = ''example.com/accelerator''\<rparr>,
      Provider = registry_provider\<rparr>"

definition example_world :: "(namespaced_name list) world" where
  "example_world =
     \<lparr>store = [(''default'', ''trainer-0'') \<mapsto> example_pod], cloud = [], calls = []\<rparr>"

definition never_cancelled :: Context where
  "never_cancelled = \<lparr>Deadline = None\<rparr>"


text \<open>The example world with the pod running, with the pod deleted, and with the pod
  already registered by the provider.\<close>

definition running_world :: "(namespaced_name list) world" where
  "running_world = example_world\<lparr>store := [(''default'', ''trainer-0'') \<mapsto> running_pod]\<rparr>"

definition deleted_world :: "(namespaced_name list) world" where
  "deleted_world = example_world\<lparr>store := Map.empty\<rparr>"

definition registered_world :: "(namespaced_name list) world" where
  "registered_world = example_world\<lparr>cloud := [(''default'', ''trainer-0'')]\<rparr>"

definition quota_reconciler :: "(namespaced_name list) CreationReconciler" where
  "quota_reconciler = example_reconciler\<lparr>Provider := quota_provider\<rparr>"

definition unreachable_reconciler :: "(namespaced_name list) CreationReconciler" where
  "unreachable_reconciler = example_reconciler\<lparr>Client := unreachable_client\<rparr>"

text \<open>A context whose signal has fired before the first call, and one whose signal fires
  once the first call, the \<^verbatim>\<open>Get\<close>, has been made.\<close>

definition cancelled_at_start :: Context where
  "cancelled_at_start = \<lparr>Deadline = Some 0\<rparr>"

definition cancelled_after_get :: Context where
  "cancelled_after_get = \<lparr>Deadline = Some 1\<rparr>"

section \<open>The paths of Reconcile\<close>

text \<open>One lemma for each path through \<^verbatim>\<open>Reconcile\<close>: its return value and the world it leaves.\<close>

lemma Reconcile_not_found:
  assumes "fetched r ctx req w = Inl err" and "IsNotFound err"
  shows "Reconcile r ctx req w =
           ((Result_zero, None), w\<lparr>calls := calls w @ [StoreCall ClientGet (NamespacedName req)]\<rparr>)"
  using assms by (simp add: Reconcile_def Get_def fetched_def)

lemma Reconcile_get_failed:
  assumes "fetched r ctx req w = Inl err" and "\<not> IsNotFound err"
  shows "Reconcile r ctx req w =
           ((Result_zero, Some (Errorf_w ''getting pod: '' err)),
            w\<lparr>calls := calls w @ [StoreCall ClientGet (NamespacedName req)]\<rparr>)"
  using assms by (simp add: Reconcile_def Get_def fetched_def)

lemma Reconcile_ignored:
  assumes "fetched r ctx req w = Inr p" and "\<not> isEligible p (ResourceType (PodCriteria r))"
  shows "Reconcile r ctx req w =
           ((Result_zero, None), w\<lparr>calls := calls w @ [StoreCall ClientGet (NamespacedName req)]\<rparr>)"
  using assms by (auto simp add: Reconcile_def Get_def fetched_def isEligible_def)

lemma Reconcile_ensured:
  assumes "fetched r ctx req w = Inr p" and "isEligible p (ResourceType (PodCriteria r))"
    and "Provider r p (cloud w) = (None, c)"
  shows "Reconcile r ctx req w =
           ((Result_zero, None),
            w\<lparr>cloud := c,
              calls := calls w @ [StoreCall ClientGet (NamespacedName req), Emit (ensuring_event p),
                                  EnsureCall p, Emit (ensured_event p)]\<rparr>)"
  using assms
  by (simp add: Reconcile_def Get_def fetched_def isEligible_def Recorder_Event_def
      EnsureNodePoolForPod_def ensuring_event_def ensured_event_def)

lemma Reconcile_duplicate:
  assumes "fetched r ctx req w = Inr p" and "isEligible p (ResourceType (PodCriteria r))"
    and "Provider r p (cloud w) = (Some err, c)" and "errors_Is err ErrDuplicateRequest"
  shows "Reconcile r ctx req w =
           ((Result_zero, None),
            w\<lparr>cloud := c,
              calls := calls w @ [StoreCall ClientGet (NamespacedName req), Emit (ensuring_event p),
                                  EnsureCall p]\<rparr>)"
  using assms
  by (simp add: Reconcile_def Get_def fetched_def isEligible_def Recorder_Event_def
      EnsureNodePoolForPod_def ensuring_event_def)

lemma Reconcile_failed:
  assumes "fetched r ctx req w = Inr p" and "isEligible p (ResourceType (PodCriteria r))"
    and "Provider r p (cloud w) = (Some err, c)" and "\<not> errors_Is err ErrDuplicateRequest"
  shows "Reconcile r ctx req w =
           ((Result_zero, Some err),
            w\<lparr>cloud := c,
              calls := calls w @ [StoreCall ClientGet (NamespacedName req), Emit (ensuring_event p),
                                  EnsureCall p, Emit (failed_event p err)]\<rparr>)"
  using assms
  by (simp add: Reconcile_def Get_def fetched_def isEligible_def Recorder_Event_def
      EnsureNodePoolForPod_def ensuring_event_def failed_event_def)

text \<open>
  The same in closed form: the calls of an invocation, its return value and the cloud state
  and store it leaves.
\<close>

lemma invocation_calls_eq:
  "invocation_calls r ctx req w =
     StoreCall ClientGet (NamespacedName req) #
     (case fetched r ctx req w of
        Inl err \<Rightarrow> []
      | Inr p \<Rightarrow>
          if isEligible p (ResourceType (PodCriteria r))
          then Emit (ensuring_event p) # EnsureCall p #
               (case fst (Provider r p (cloud w)) of
                  None \<Rightarrow> [Emit (ensured_event p)]
                | Some err \<Rightarrow>
                    if errors_Is err ErrDuplicateRequest then [] else [Emit (failed_event p err)])
          else [])"
proof (cases "fetched r ctx req w")
  case (Inl err)
  then show ?thesis
    by (cases "IsNotFound err")
      (simp_all add: invocation_calls_def Reconcile_not_found Reconcile_get_failed)
next
  case (Inr p)
  show ?thesis
  proof (cases "isEligible p (ResourceType (PodCriteria r))")
    case False
    with Inr show ?thesis by (simp add: invocation_calls_def Reconcile_ignored)
  next
    case True
    obtain res c where pr: "Provider r p (cloud w) = (res, c)" by (cases "Provider r p (cloud w)")
    show ?thesis
    proof (cases res)
      case None
      with Inr True pr show ?thesis by (simp add: invocation_calls_def Reconcile_ensured)
    next
      case (Some err)
      with Inr True pr show ?thesis
        by (cases "errors_Is err ErrDuplicateRequest")
          (simp_all add: invocation_calls_def Reconcile_duplicate Reconcile_failed)
    qed
  qed
qed

lemma outcome_eq:
  "fst (Reconcile r ctx req w) =
     (Result_zero,
      case fetched r ctx req w of
        Inl err \<Rightarrow> if IsNotFound err then None else Some (Errorf_w ''getting pod: '' err)
      | Inr p \<Rightarrow>
          if isEligible p (ResourceType (PodCriteria r))
          then (case fst (Provider r p (cloud w)) of
                  None \<Rightarrow> None
                | Some err \<Rightarrow> if errors_Is err ErrDuplicateRequest then None else Some err)
          else None)"
proof (cases "fetched r ctx req w")
  case (Inl err)
  then show ?thesis
    by (cases "IsNotFound err") (simp_all add: Reconcile_not_found Reconcile_get_failed)
next
  case (Inr p)
  show ?thesis
  proof (cases "isEligible p (ResourceType (PodCriteria r))")
    case False
    with Inr show ?thesis by (simp add: Reconcile_ignored)
  next
    case True
    obtain res c where pr: "Provider r p (cloud w) = (res, c)" by (cases "Provider r p (cloud w)")
    show ?thesis
    proof (cases res)
      case None
      with Inr True pr show ?thesis by (simp add: Reconcile_ensured)
    next
      case (Some err)
      with Inr True pr show ?thesis
        by (cases "errors_Is err ErrDuplicateRequest")
          (simp_all add: Reconcile_duplicate Reconcile_failed)
    qed
  qed
qed


lemma store_eq: "store (snd (Reconcile r ctx req w)) = store w"
  by (simp add: Reconcile_def Get_def Recorder_Event_def EnsureNodePoolForPod_def Let_def
      split: sum.splits prod.splits option.splits)

lemma calls_eq: "calls (snd (Reconcile r ctx req w)) = calls w @ invocation_calls r ctx req w"
  by (simp add: invocation_calls_def Reconcile_def Get_def Recorder_Event_def
      EnsureNodePoolForPod_def Let_def split: sum.splits prod.splits option.splits)



section \<open>The concrete collaborators and inputs, evaluated\<close>

lemmas world_defs = example_world_def running_world_def deleted_world_def registered_world_def
lemmas reconciler_defs = example_reconciler_def quota_reconciler_def unreachable_reconciler_def
lemmas context_defs = never_cancelled_def cancelled_at_start_def cancelled_after_get_def

lemma example_pod_eligible: "isEligible example_pod ''example.com/accelerator''"
  by (simp add: isEligible_def isPending_def isUnschedulable_def doesRequestResource_def
      hasNodeSelectors_def example_pod_def)

lemma running_pod_not_pending: "\<not> isPending running_pod"
  by (simp add: isPending_def running_pod_def)

lemma example_pod_key: "pod_key example_pod = (''default'', ''trainer-0'')"
  by (simp add: pod_key_def example_pod_def)

lemma fetched_example:
  "fetched example_reconciler never_cancelled example_request example_world = Inr example_pod"
  "fetched example_reconciler never_cancelled example_request registered_world = Inr example_pod"
  "fetched quota_reconciler never_cancelled example_request example_world = Inr example_pod"
  "fetched example_reconciler never_cancelled example_request running_world = Inr running_pod"
  "fetched example_reconciler cancelled_after_get example_request example_world = Inr example_pod"
  by (simp_all add: fetched_def ctx_Done_def cluster_client_def example_request_def
      world_defs reconciler_defs context_defs)


lemma example_criteria:
  "ResourceType (PodCriteria example_reconciler) = ''example.com/accelerator''"
  "ResourceType (PodCriteria quota_reconciler) = ''example.com/accelerator''"
  by (simp_all add: reconciler_defs)

lemma example_providers:
  "Provider example_reconciler example_pod (cloud example_world)
     = (None, [(''default'', ''trainer-0'')])"
  "Provider example_reconciler example_pod (cloud registered_world)
     = (Some ErrDuplicateRequest, [(''default'', ''trainer-0'')])"
  "Provider quota_reconciler example_pod (cloud example_world)
     = (Some (ErrorString ''quota exceeded''), [])"
  by (simp_all add: registry_provider_def quota_provider_def example_pod_key
      world_defs reconciler_defs)



section \<open>The properties\<close>

text \<open>
  C1. The provider is invoked only for a pod that was fetched and for which all four
  sub-predicates hold (pending, unschedulable, requesting the configured resource type,
  carrying the fixed node selector key). If any one of them is false for the fetched pod,
  \<^verbatim>\<open>Reconcile\<close> returns the zero result and no error, and its only call is the \<^verbatim>\<open>Get\<close>: no
  provider call and no event.
\<close>

theorem reconcile_gates_on_eligibility:
  "(q \<in> set (ensure_calls (invocation_calls r ctx req w)) \<longrightarrow>
      fetched r ctx req w = Inr q \<and> isPending q \<and> isUnschedulable q \<and>
      doesRequestResource q (ResourceType (PodCriteria r)) \<and>
      hasNodeSelectors q GKETPUNodeSelector) \<and>
   (fetched r ctx req w = Inr p \<and>
    (\<not> isPending p \<or> \<not> isUnschedulable p \<or>
     \<not> doesRequestResource p (ResourceType (PodCriteria r)) \<or>
     \<not> hasNodeSelectors p GKETPUNodeSelector) \<longrightarrow>
      fst (Reconcile r ctx req w) = (Result_zero, None) \<and>
      invocation_calls r ctx req w = [StoreCall ClientGet (NamespacedName req)])"
  by (auto simp add: outcome_eq invocation_calls_eq isEligible_def
      split: sum.splits option.splits if_splits)

text \<open>
  The pending pod of scenario 8 reaches the provider and satisfies the four predicates; the
  running pod of scenario 9 is ignored.
\<close>

theorem reconcile_gates_on_eligibility_witness:
  "example_pod \<in> set (ensure_calls
      (invocation_calls example_reconciler never_cancelled example_request example_world)) \<and>
   isPending example_pod \<and> isUnschedulable example_pod \<and>
   doesRequestResource example_pod (ResourceType (PodCriteria example_reconciler)) \<and>
   hasNodeSelectors example_pod GKETPUNodeSelector \<and>
   fetched example_reconciler never_cancelled example_request running_world = Inr running_pod \<and>
   \<not> isPending running_pod \<and>
   fst (Reconcile example_reconciler never_cancelled example_request running_world)
     = (Result_zero, None) \<and>
   invocation_calls example_reconciler never_cancelled example_request running_world
     = [StoreCall ClientGet (NamespacedName example_request)]"
proof -
  have called: "example_pod \<in> set (ensure_calls
      (invocation_calls example_reconciler never_cancelled example_request example_world))"
    by (simp add: invocation_calls_eq fetched_example example_criteria example_pod_eligible)
  have running: "fetched example_reconciler never_cancelled example_request running_world
      = Inr running_pod" "\<not> isPending running_pod"
    by (simp_all add: fetched_example running_pod_not_pending)
  show ?thesis
    using called running
      reconcile_gates_on_eligibility[of example_pod example_reconciler never_cancelled
        example_request example_world running_pod]
      reconcile_gates_on_eligibility[of example_pod example_reconciler never_cancelled
        example_request running_world running_pod]
    by blast
qed

text \<open>
  C2. For an eligible pod, when \<^verbatim>\<open>EnsureNodePoolForPod\<close> fails with an error that is
  \<^verbatim>\<open>ErrDuplicateRequest\<close>, \<^verbatim>\<open>Reconcile\<close> returns the zero result and no error, and records no
  warning event.
\<close>

theorem duplicate_request_is_success:
  assumes "fetched r ctx req w = Inr p"
    and "isEligible p (ResourceType (PodCriteria r))"
    and "Provider r p (cloud w) = (Some err, c)"
    and "errors_Is err ErrDuplicateRequest"
  shows "fst (Reconcile r ctx req w) = (Result_zero, None) \<and>
         warnings (invocation_calls r ctx req w) = []"
  using assms by (simp add: outcome_eq invocation_calls_eq warnings_def ensuring_event_def)

text \<open>The example pod, already registered by the provider.\<close>

theorem duplicate_request_is_success_witness:
  "fst (Reconcile example_reconciler never_cancelled example_request registered_world)
     = (Result_zero, None) \<and>
   warnings (invocation_calls example_reconciler never_cancelled example_request
      registered_world) = []"
proof (rule duplicate_request_is_success)
  show "fetched example_reconciler never_cancelled example_request registered_world
      = Inr example_pod"
    by (rule fetched_example)
  show "isEligible example_pod (ResourceType (PodCriteria example_reconciler))"
    by (simp add: example_criteria example_pod_eligible)
  show "Provider example_reconciler example_pod (cloud registered_world)
      = (Some ErrDuplicateRequest, [(''default'', ''trainer-0'')])"
    by (rule example_providers)
  show "errors_Is ErrDuplicateRequest ErrDuplicateRequest" by simp
qed




text \<open>
  C4. For an eligible pod, when the provider fails with an error that is not
  \<^verbatim>\<open>ErrDuplicateRequest\<close>, \<^verbatim>\<open>Reconcile\<close> returns that error, and records exactly one warning
  event, whose message ends with the text of the error.
\<close>

theorem provider_failure_is_reported_and_returned:
  assumes "fetched r ctx req w = Inr p"
    and "isEligible p (ResourceType (PodCriteria r))"
    and "Provider r p (cloud w) = (Some err, c)"
    and "\<not> errors_Is err ErrDuplicateRequest"
  shows "fst (Reconcile r ctx req w) = (Result_zero, Some err) \<and>
         warnings (invocation_calls r ctx req w) =
           [\<lparr>Involved = p, Type = EventTypeWarning, EventReason = EventFailedEnsuringNodePool,
             Message = ''Failed to ensure existance of Node Pool: '' @ Error err\<rparr>]"
  using assms
  by (simp add: outcome_eq invocation_calls_eq warnings_def ensuring_event_def failed_event_def)

text \<open>The example pod with the provider that is out of quota.\<close>

theorem provider_failure_is_reported_and_returned_witness:
  "fst (Reconcile quota_reconciler never_cancelled example_request example_world)
     = (Result_zero, Some (ErrorString ''quota exceeded'')) \<and>
   warnings (invocation_calls quota_reconciler never_cancelled example_request example_world)
     = [\<lparr>Involved = example_pod, Type = EventTypeWarning,
          EventReason = EventFailedEnsuringNodePool,
          Message = ''Failed to ensure existance of Node Pool: quota exceeded''\<rparr>]"
proof -
  have "\<not> errors_Is (ErrorString ''quota exceeded'') ErrDuplicateRequest" by simp
  from provider_failure_is_reported_and_returned
         [OF fetched_example(3) _ example_providers(3) this]
  show ?thesis by (simp add: example_criteria example_pod_eligible)
qed



text \<open>
  C6. For an eligible pod, when \<^verbatim>\<open>EnsureNodePoolForPod\<close> succeeds, \<^verbatim>\<open>Reconcile\<close> returns the
  zero result and no error, and the events it records are the "ensuring" event followed by
  the "node pool ensured" event, of type Normal.
\<close>

theorem ensured_event_on_success:
  assumes "fetched r ctx req w = Inr p"
    and "isEligible p (ResourceType (PodCriteria r))"
    and "Provider r p (cloud w) = (None, c)"
  shows "fst (Reconcile r ctx req w) = (Result_zero, None) \<and>
         emitted (invocation_calls r ctx req w) =
           [ensuring_event p,
            \<lparr>Involved = p, Type = EventTypeNormal, EventReason = EventNodePoolEnsured,
             Message = ''Node Pool Ensured.''\<rparr>]"
  using assms
  by (simp add: outcome_eq invocation_calls_eq ensured_event_def)

text \<open>Scenario 8 of the spec.\<close>

theorem ensured_event_on_success_witness:
  "fst (Reconcile example_reconciler never_cancelled example_request example_world)
     = (Result_zero, None) \<and>
   emitted (invocation_calls example_reconciler never_cancelled example_request example_world)
     = [ensuring_event example_pod,
        \<lparr>Involved = example_pod, Type = EventTypeNormal, EventReason = EventNodePoolEnsured,
         Message = ''Node Pool Ensured.''\<rparr>]"
proof -
  from ensured_event_on_success[OF fetched_example(1) _ example_providers(1)]
  show ?thesis by (simp add: example_criteria example_pod_eligible)
qed

text \<open>
  C7. An invocation calls the provider at most once. For an eligible pod its first three
  calls are the \<^verbatim>\<open>Get\<close>, the "ensuring" event (type Normal) and then the provider call, and
  no provider call follows.
\<close>

theorem ensuring_event_precedes_single_provider_call:
  "length (ensure_calls (invocation_calls r ctx req w)) \<le> 1 \<and>
   (fetched r ctx req w = Inr p \<and> isEligible p (ResourceType (PodCriteria r)) \<longrightarrow>
      take 3 (invocation_calls r ctx req w) =
        [StoreCall ClientGet (NamespacedName req), Emit (ensuring_event p), EnsureCall p] \<and>
      Type (ensuring_event p) = EventTypeNormal \<and>
      EventReason (ensuring_event p) = EventEnsuringNodePool \<and>
      ensure_calls (drop 3 (invocation_calls r ctx req w)) = [])"
  by (simp add: invocation_calls_eq ensuring_event_def split: sum.splits option.splits)

text \<open>Scenario 8 of the spec.\<close>

theorem ensuring_event_precedes_single_provider_call_witness:
  "length (ensure_calls
     (invocation_calls example_reconciler never_cancelled example_request example_world)) \<le> 1 \<and>
   take 3 (invocation_calls example_reconciler never_cancelled example_request example_world) =
     [StoreCall ClientGet (NamespacedName example_request), Emit (ensuring_event example_pod),
      EnsureCall example_pod] \<and>
   ensure_calls (drop 3
     (invocation_calls example_reconciler never_cancelled example_request example_world)) = []"
  using ensuring_event_precedes_single_provider_call
          [of example_reconciler never_cancelled example_request example_world example_pod]
  by (simp add: fetched_example example_criteria example_pod_eligible)




text \<open>
  C9. \<^verbatim>\<open>Reconcile\<close> leaves the store as it found it, and the only call it makes on the
  client is one \<^verbatim>\<open>Get\<close> of the requested key.
\<close>

theorem store_is_only_read:
  "store (snd (Reconcile r ctx req w)) = store w \<and>
   store_calls (invocation_calls r ctx req w) = [(ClientGet, NamespacedName req)]"
  by (simp add: store_eq invocation_calls_eq split: sum.splits option.splits)

text \<open>Scenario 8 of the spec.\<close>

theorem store_is_only_read_witness:
  "store (snd (Reconcile example_reconciler never_cancelled example_request example_world))
     = store example_world \<and>
   store_calls (invocation_calls example_reconciler never_cancelled example_request example_world)
     = [(ClientGet, NamespacedName example_request)]"
  by (rule store_is_only_read)

text \<open>
  C10. On every path \<^verbatim>\<open>Reconcile\<close> returns the zero-valued result: \<^verbatim>\<open>Requeue\<close> is false and
  \<^verbatim>\<open>RequeueAfter\<close> is zero. A request to redeliver is carried by the returned error alone.
\<close>

theorem result_is_zero_value:
  "fst (fst (Reconcile r ctx req w)) = \<lparr>Requeue = False, RequeueAfter = 0\<rparr>"
  by (simp add: outcome_eq Result_zero_def)

text \<open>The provider out of quota: an error is returned, with the zero result.\<close>

theorem result_is_zero_value_witness:
  "fst (fst (Reconcile quota_reconciler never_cancelled example_request example_world))
     = \<lparr>Requeue = False, RequeueAfter = 0\<rparr>"
  by (rule result_is_zero_value)

end
